theory Spec2Isabelle
  imports Main
begin

section \<open>JavaScript values of the redirect path\<close>

text \<open>
  A thrown or rejected value. The handlers of the URL controller distinguish
  \<^verbatim>\<open>TypeError\<close> from other \<^verbatim>\<open>Error\<close> objects and from values that are
  no \<^verbatim>\<open>Error\<close> at all; each carries its text.
\<close>

datatype js_error = JsError string | JsTypeError string | JsThrown string

fun message :: "js_error \<Rightarrow> string" where
  "message (JsError m) = m"
| "message (JsTypeError m) = m"
| "message (JsThrown m) = ''undefined''"

text \<open>An awaited call of a collaborator either returns a value or throws (rejects).\<close>

datatype 'a js_result = Returns 'a | Throws js_error

text \<open>
  The promise that \<^verbatim>\<open>recordImpression\<close> hands back is not awaited: it settles
  later, fulfilled or rejected, or it never settles.
\<close>

datatype promise = Fulfilled | Rejected js_error | Pending

text \<open>
  A header value of Node's \<^verbatim>\<open>IncomingHttpHeaders\<close>:
  \<^verbatim>\<open>string | string[] | undefined\<close>, and \<^verbatim>\<open>null\<close> for the default the
  middleware writes itself.
\<close>

datatype header = Undefined | Null | Str string | Arr "string list"

text \<open>JavaScript truthiness: the empty string is falsy, every array is truthy.\<close>

fun truthy :: "header \<Rightarrow> bool" where
  "truthy Undefined = False"
| "truthy Null = False"
| "truthy (Str s) = (s \<noteq> [])"
| "truthy (Arr xs) = True"

text \<open>\<^verbatim>\<open>a || b\<close>\<close>

definition js_or :: "header \<Rightarrow> header \<Rightarrow> header" where
  "js_or a b = (if truthy a then a else b)"

text \<open>\<^verbatim>\<open>s.includes(c)\<close> for a one-character needle and \<^verbatim>\<open>s.startsWith(p)\<close>.\<close>

definition includes_chr :: "string \<Rightarrow> char \<Rightarrow> bool" where
  "includes_chr s c = (c \<in> set s)"

definition startsWith :: "string \<Rightarrow> string \<Rightarrow> bool" where
  "startsWith s p = (take (length p) s = p)"

section \<open>Data of the redirect middleware\<close>

text \<open>\<^verbatim>\<open>ExtendedRequest.clickInfo\<close>\<close>

record click_info =
  ipAddress :: header
  userAgent :: "string option"
  referrer :: header
  country :: "string option"
  deviceType :: string
  browser :: string
  clickId :: "int option"
  trackingId :: "string option"

text \<open>
  The request as the middleware reads it: the path, four headers, the socket's remote
  address, and the two extensions an upstream middleware may have attached. The hook
  \<^verbatim>\<open>setClickId(clickId, urlId)\<close> generates the tracking identifier by updating
  \<^verbatim>\<open>req.clickInfo\<close>; it is code outside this file, so it is a parameter that
  maps the current \<^verbatim>\<open>req.clickInfo\<close> to the updated one, or throws.
\<close>

record request =
  path :: string
  x_forwarded_for :: header
  user_agent :: "string option"
  referer :: header
  referrer_hdr :: header
  remoteAddress :: header
  clickInfo :: "click_info option"
  setClickId :: "(int \<Rightarrow> int \<Rightarrow> click_info option \<Rightarrow> click_info option js_result) option"

text \<open>The result of \<^verbatim>\<open>urlService.recordClickAndGetOriginalUrl\<close>.\<close>

record click_result =
  originalUrl :: string
  res_clickId :: int
  res_urlId :: int

text \<open>The \<^verbatim>\<open>UrlEntity\<close> interface; dates are epoch milliseconds.\<close>

record UrlEntity =
  url_id :: int
  user_id :: "int option"
  original_url :: string
  short_code :: string
  title :: "string option"
  expiry_date :: "int option"
  is_active :: bool
  has_password :: bool
  password_hash :: "string option"
  redirect_type :: string
  created_at :: int
  updated_at :: "int option"
  deleted_at :: "int option"

text \<open>The row handed to \<^verbatim>\<open>impressionModel.recordImpression\<close>.\<close>

record impression =
  imp_url_id :: int
  ip_address :: header
  imp_user_agent :: string
  imp_referrer :: string
  is_unique :: bool
  source :: string

record goal =
  goal_id :: int

section \<open>JSON documents and the outbound conversion request\<close>

text \<open>
  A parsed JSON value. The numbers that occur here are ids and status codes, so they are
  integers; the members of an object keep the order of the document.
\<close>

datatype json =
  JNull | JBool bool | JNumber int | JString string | JArray "json list"
  | JObject "(string \<times> json) list"

text \<open>
  Property access \<^verbatim>\<open>v.k\<close> on a parsed JSON value, for a key that no prototype
  defines: \<^verbatim>\<open>null.k\<close> throws a \<^verbatim>\<open>TypeError\<close>, an object yields the
  member (the last one of that name) or \<^verbatim>\<open>undefined\<close>, every other value yields
  \<^verbatim>\<open>undefined\<close>. The JavaScript value \<^verbatim>\<open>undefined\<close> is \<open>None\<close>.
\<close>

fun get_prop :: "json \<Rightarrow> string \<Rightarrow> json option js_result" where
  "get_prop JNull k = Throws (JsTypeError ''Cannot read properties of null'')"
| "get_prop (JObject kvs) k = Returns (map_of (rev kvs) k)"
| "get_prop v k = Returns None"

fun get_prop_opt :: "json option \<Rightarrow> string \<Rightarrow> json option js_result" where
  "get_prop_opt None k = Throws (JsTypeError ''Cannot read properties of undefined'')"
| "get_prop_opt (Some v) k = get_prop v k"

fun json_truthy :: "json option \<Rightarrow> bool" where
  "json_truthy None = False"
| "json_truthy (Some JNull) = False"
| "json_truthy (Some (JBool b)) = b"
| "json_truthy (Some (JNumber n)) = (n \<noteq> 0)"
| "json_truthy (Some (JString s)) = (s \<noteq> [])"
| "json_truthy (Some v) = True"

datatype port = PortNumber int | PortString string

text \<open>
  The options of the outbound request. The body is kept as the JSON value that
  \<^verbatim>\<open>JSON.stringify\<close> serialises; the \<^verbatim>\<open>Content-Length\<close> header is the
  length of that serialisation and is left out.
\<close>

record http_options =
  hostname :: string
  http_port :: port
  http_path :: string
  http_method :: string
  content_type :: string

record http_response =
  statusCode :: "int option"
  body :: string

text \<open>
  What \<^verbatim>\<open>http.request\<close> does with the request: it throws at once, it emits
  \<^verbatim>\<open>error\<close>, the response arrives and ends, or nothing ever comes back.
\<close>

datatype http_result =
  HttpThrows js_error | HttpError js_error | HttpEnd http_response | HttpSilent

section \<open>Effects\<close>

datatype level = Info | Err

text \<open>One constructor for each line the middleware writes to the logger.\<close>

datatype log_msg =
    Redirecting string string int
  | RecordedImpression int
  | FailedToRecordImpression int string
  | ErrorTrackingImpression js_error
  | FoundGoal int int
  | ErrorGettingGoals js_error
  | ErrorAutoTracking js_error
  | UrlNotFound string
  | RedirectError js_error
  | ConversionTracked "json option" string
  | ErrorTrackingConversion "json option"
  | ErrorParsingConversion js_error
  | ErrorSendingConversion js_error

text \<open>
  The calls a request makes on its collaborators, in the order it makes them, and the
  lines it logs. \<open>SetTimeout d t g\<close> schedules \<^verbatim>\<open>autoTrackConversion(t, g)\<close>
  after \<open>d\<close> milliseconds; \<open>HttpRequest\<close> is the outbound call itself.
\<close>

datatype effect =
    ResolveAndRecord string click_info
  | SetClickId int int
  | GetUrlByShortCode string
  | HasRecentImpression int header
  | RecordImpression impression
  | GetGoalsByUrlId int
  | SetTimeout int string int
  | HttpRequest http_options json
  | Log level log_msg

text \<open>
  What the middleware does with the request in the end: \<open>PassThrough\<close> is
  \<^verbatim>\<open>next()\<close>, \<open>Redirect s u\<close> is \<^verbatim>\<open>res.redirect(s, u)\<close>, and
  \<open>JsonResponse s b m\<close> is \<^verbatim>\<open>res.status(s).json({status: b, message: m})\<close>.
\<close>

datatype response =
    PassThrough
  | Redirect int string
  | JsonResponse int int string

text \<open>
  What one run of the middleware leaves behind: the response, the effects of the
  awaited path in order, and the effects of the detached work (the callbacks of the
  impression promise and the timer), which happen at some later time.
\<close>

record outcome =
  response :: response
  effects :: "effect list"
  detached :: "effect list"

text \<open>
  The collaborators and the platform, none of them in this file: the URL service, the
  impression and goal models, \<^verbatim>\<open>new URL(s).hostname\<close> (\<open>None\<close> when the
  constructor throws), \<^verbatim>\<open>http.request\<close>, \<^verbatim>\<open>JSON.parse\<close> and the two
  environment variables.
\<close>

record env =
  recordClickAndGetOriginalUrl :: "string \<Rightarrow> click_info \<Rightarrow> click_result option js_result"
  getUrlByShortCode :: "string \<Rightarrow> UrlEntity option js_result"
  hasRecentImpression :: "int \<Rightarrow> header \<Rightarrow> bool js_result"
  recordImpression :: "impression \<Rightarrow> promise js_result"
  getGoalsByUrlId :: "int \<Rightarrow> goal list js_result"
  url_hostname :: "string \<Rightarrow> string option"
  http_request :: "http_options \<Rightarrow> json \<Rightarrow> http_result"
  json_parse :: "string \<Rightarrow> json js_result"
  env_HOST :: "string option"
  env_PORT :: "string option"

section \<open>autoTrackConversion\<close>

text \<open>\<^verbatim>\<open>process.env.X || d\<close>\<close>

definition env_or :: "string option \<Rightarrow> 'a \<Rightarrow> (string \<Rightarrow> 'a) \<Rightarrow> 'a" where
  "env_or v d f = (case v of None \<Rightarrow> d | Some s \<Rightarrow> if s = [] then d else f s)"

definition conversion_options :: "env \<Rightarrow> http_options" where
  "conversion_options e =
     \<lparr>hostname = env_or (env_HOST e) ''localhost'' (\<lambda>s. s),
      http_port = env_or (env_PORT e) (PortNumber 5000) PortString,
      http_path = ''/api/v1/conversions'',
      http_method = ''POST'',
      content_type = ''application/json''\<rparr>"

definition postData :: "string \<Rightarrow> int \<Rightarrow> json" where
  "postData t g = JObject [(''tracking_id'', JString t), (''goal_id'', JNumber g)]"

definition is_2xx :: "int option \<Rightarrow> bool" where
  "is_2xx sc = (case sc of None \<Rightarrow> False | Some c \<Rightarrow> c \<noteq> 0 \<and> 200 \<le> c \<and> c < 300)"

text \<open>
  The \<^verbatim>\<open>end\<close> handler of the response: the log lines it writes and how it
  settles the promise.
\<close>

definition on_end :: "env \<Rightarrow> string \<Rightarrow> http_response \<Rightarrow> effect list \<times> promise" where
  "on_end e t r =
     (case json_parse e (body r) of
        Throws x \<Rightarrow> ([Log Err (ErrorParsingConversion x)], Rejected x)
      | Returns result \<Rightarrow>
          if is_2xx (statusCode r) then
            (case get_prop result ''data'' of
               Throws x \<Rightarrow> ([Log Err (ErrorParsingConversion x)], Rejected x)
             | Returns d \<Rightarrow>
                 (case get_prop_opt d ''conversion_id'' of
                    Throws x \<Rightarrow> ([Log Err (ErrorParsingConversion x)], Rejected x)
                  | Returns c \<Rightarrow> ([Log Info (ConversionTracked c t)], Fulfilled)))
          else
            (case get_prop result ''message'' of
               Throws x \<Rightarrow> ([Log Err (ErrorParsingConversion x)], Rejected x)
             | Returns m \<Rightarrow>
                 ([Log Err (ErrorTrackingConversion (if json_truthy m then m else None))],
                  Fulfilled)))"

text \<open>
  The request is made inside the executor of \<^verbatim>\<open>new Promise\<close>, so an exception
  of \<^verbatim>\<open>http.request\<close> rejects the promise; the outer \<^verbatim>\<open>catch\<close> guards
  only the construction of the options and of the body, which does not throw for a
  string and a number.
\<close>

definition autoTrackConversion :: "env \<Rightarrow> string \<Rightarrow> int \<Rightarrow> effect list \<times> promise" where
  "autoTrackConversion e t g =
     (let options = conversion_options e; pd = postData t g
      in case http_request e options pd of
           HttpThrows x \<Rightarrow> ([], Rejected x)
         | HttpError x \<Rightarrow>
             ([HttpRequest options pd, Log Err (ErrorSendingConversion x)], Rejected x)
         | HttpEnd r \<Rightarrow>
             (let (logs, p) = on_end e t r in (HttpRequest options pd # logs, p))
         | HttpSilent \<Rightarrow> ([HttpRequest options pd], Pending))"

text \<open>
  The timer's callback:
  \<^verbatim>\<open>autoTrackConversion(t, g).catch(err => logger.error(...))\<close>.
  It returns the effects of the detached task; no exception leaves it.
\<close>

definition attribution_task :: "env \<Rightarrow> string \<Rightarrow> int \<Rightarrow> effect list" where
  "attribution_task e t g =
     (case autoTrackConversion e t g of
        (effs, Rejected x) \<Rightarrow> effs @ [Log Err (ErrorAutoTracking x)]
      | (effs, _) \<Rightarrow> effs)"

section \<open>The redirect middleware\<close>

definition shortCode_of :: "request \<Rightarrow> string" where
  "shortCode_of req = drop 1 (path req)"

text \<open>
  \<^verbatim>\<open>!shortCode || shortCode.includes('/') || shortCode.startsWith('api')\<close>
\<close>

definition skipped :: "string \<Rightarrow> bool" where
  "skipped sc = (sc = [] \<or> includes_chr sc (CHR ''/'') \<or> startsWith sc ''api'')"

definition default_clickInfo :: "request \<Rightarrow> click_info" where
  "default_clickInfo req =
     \<lparr>ipAddress = js_or (x_forwarded_for req) (remoteAddress req),
      userAgent = user_agent req,
      referrer = js_or (referer req) (js_or (referrer_hdr req) Null),
      country = None,
      deviceType = ''unknown'',
      browser = ''unknown'',
      clickId = None,
      trackingId = None\<rparr>"

definition clickInfo_of :: "request \<Rightarrow> click_info" where
  "clickInfo_of req = (case clickInfo req of Some c \<Rightarrow> c | None \<Rightarrow> default_clickInfo req)"

text \<open>The referrer the impression block reads, and the source it derives from it.\<close>

definition referrer_of :: "request \<Rightarrow> header" where
  "referrer_of req = js_or (referer req) (js_or (referrer_hdr req) (Str []))"

definition source_of :: "env \<Rightarrow> header \<Rightarrow> string" where
  "source_of e r =
     (case r of
        Str s \<Rightarrow> if s \<noteq> [] then (case url_hostname e s of Some h \<Rightarrow> h | None \<Rightarrow> s) else []
      | _ \<Rightarrow> [])"

definition impression_row :: "env \<Rightarrow> request \<Rightarrow> int \<Rightarrow> bool \<Rightarrow> impression" where
  "impression_row e req urlId isUnique =
     \<lparr>imp_url_id = urlId,
      ip_address = js_or (x_forwarded_for req) (remoteAddress req),
      imp_user_agent = (case user_agent req of Some s \<Rightarrow> s | None \<Rightarrow> []),
      imp_referrer = (case referrer_of req of Str s \<Rightarrow> s | _ \<Rightarrow> []),
      is_unique = isUnique,
      source = source_of e (referrer_of req)\<rparr>"

text \<open>
  The impression block (the inner \<^verbatim>\<open>try\<close>): the effects of the awaited part and
  those of the promise's callbacks.
\<close>

definition track_impression :: "env \<Rightarrow> request \<Rightarrow> int \<Rightarrow> effect list \<times> effect list" where
  "track_impression e req urlId =
     (let ip = js_or (x_forwarded_for req) (remoteAddress req)
      in case hasRecentImpression e urlId ip of
           Throws x \<Rightarrow> ([HasRecentImpression urlId ip, Log Err (ErrorTrackingImpression x)], [])
         | Returns recent \<Rightarrow>
             (let row = impression_row e req urlId (\<not> recent);
                  calls = [HasRecentImpression urlId ip, RecordImpression row]
              in case recordImpression e row of
                   Throws x \<Rightarrow> (calls @ [Log Err (ErrorTrackingImpression x)], [])
                 | Returns Fulfilled \<Rightarrow> (calls, [Log Info (RecordedImpression urlId)])
                 | Returns (Rejected x) \<Rightarrow>
                     (calls, [Log Err (FailedToRecordImpression urlId (message x))])
                 | Returns Pending \<Rightarrow> (calls, [])))"

text \<open>The goal block: \<^verbatim>\<open>goalId\<close> (\<open>None\<close> for \<^verbatim>\<open>null\<close>) and its effects.\<close>

definition find_goal :: "env \<Rightarrow> int \<Rightarrow> int option \<times> effect list" where
  "find_goal e urlId =
     (case getGoalsByUrlId e urlId of
        Throws x \<Rightarrow> (None, [GetGoalsByUrlId urlId, Log Err (ErrorGettingGoals x)])
      | Returns goals \<Rightarrow>
          (case goals of
             [] \<Rightarrow> (None, [GetGoalsByUrlId urlId])
           | g # _ \<Rightarrow>
               (Some (goal_id g),
                [GetGoalsByUrlId urlId, Log Info (FoundGoal (goal_id g) urlId)])))"

text \<open>\<^verbatim>\<open>req.clickInfo?.trackingId\<close>, when it is truthy.\<close>

definition tracking_of :: "click_info option \<Rightarrow> string option" where
  "tracking_of ci =
     (case ci of
        None \<Rightarrow> None
      | Some c \<Rightarrow> (case trackingId c of None \<Rightarrow> None | Some t \<Rightarrow> if t = [] then None else Some t))"

definition utm :: "string \<Rightarrow> string" where
  "utm t = ''utm_source=cylink&utm_medium=shortlink&utm_campaign=conversion&utm_content='' @ t"

definition with_utm :: "string \<Rightarrow> string \<Rightarrow> string" where
  "with_utm url t = url @ (if includes_chr url (CHR ''?'') then ''&'' else ''?'') @ utm t"

text \<open>
  The UTM block: the redirect URL, the timer it sets and what the timer's callback
  does when it fires. \<^verbatim>\<open>if (goalId)\<close> is a truthiness test, so the goal id
  \<open>0\<close> sets no timer.
\<close>

definition attribute_conversion ::
  "env \<Rightarrow> string \<Rightarrow> string option \<Rightarrow> int option \<Rightarrow> string \<times> effect list \<times> effect list" where
  "attribute_conversion e url tracking goalId =
     (case tracking of
        None \<Rightarrow> (url, [], [])
      | Some t \<Rightarrow>
          (case goalId of
             None \<Rightarrow> (with_utm url t, [], [])
           | Some g \<Rightarrow>
               if g \<noteq> 0 then (with_utm url t, [SetTimeout 100 t g], attribution_task e t g)
               else (with_utm url t, [], [])))"

definition server_error :: "effect list \<Rightarrow> js_error \<Rightarrow> outcome" where
  "server_error effs x =
     \<lparr>response = JsonResponse 500 500 ''Internal Server Error'',
      effects = effs @ [Log Err (RedirectError x)],
      detached = []\<rparr>"

text \<open>
  \<^verbatim>\<open>if (req.setClickId) req.setClickId(clickId, urlId)\<close>: the state of
  \<^verbatim>\<open>req.clickInfo\<close> afterwards and the call, if one was made.
\<close>

definition call_setClickId :: "request \<Rightarrow> click_result \<Rightarrow> click_info option js_result \<times> effect list" where
  "call_setClickId req r =
     (case setClickId req of
        None \<Rightarrow> (Returns (clickInfo req), [])
      | Some hook \<Rightarrow>
          (hook (res_clickId r) (res_urlId r) (clickInfo req),
           [SetClickId (res_clickId r) (res_urlId r)]))"

text \<open>The branch \<^verbatim>\<open>if (result) { ... }\<close>; \<open>pre\<close> are the effects so far.\<close>

definition on_result :: "env \<Rightarrow> request \<Rightarrow> effect list \<Rightarrow> click_result \<Rightarrow> outcome" where
  "on_result e req pre r =
     (let sc = shortCode_of req; (hooked, hook_effs) = call_setClickId req r
      in case hooked of
           Throws x \<Rightarrow> server_error (pre @ hook_effs) x
         | Returns ci \<Rightarrow>
             (case getUrlByShortCode e sc of
                Throws x \<Rightarrow> server_error (pre @ hook_effs @ [GetUrlByShortCode sc]) x
              | Returns url \<Rightarrow>
                  (let redirectType =
                         (if (case url of None \<Rightarrow> False | Some u \<Rightarrow> redirect_type u = ''301'')
                          then 301 else 302);
                       (imp_effs, imp_later) = track_impression e req (res_urlId r);
                       (goalId, goal_effs) = find_goal e (res_urlId r);
                       (redirectUrl, timer, timer_later) =
                         attribute_conversion e (originalUrl r) (tracking_of ci) goalId
                   in \<lparr>response = Redirect redirectType redirectUrl,
                       effects = pre @ hook_effs @ [GetUrlByShortCode sc,
                           Log Info (Redirecting sc (originalUrl r) redirectType)]
                         @ imp_effs @ goal_effs @ timer,
                       detached = imp_later @ timer_later\<rparr>)))"

definition redirectMiddleware :: "env \<Rightarrow> request \<Rightarrow> outcome" where
  "redirectMiddleware e req =
     (let sc = shortCode_of req
      in if skipped sc then \<lparr>response = PassThrough, effects = [], detached = []\<rparr>
         else
           (let ci = clickInfo_of req; pre = [ResolveAndRecord sc ci]
            in case recordClickAndGetOriginalUrl e sc ci of
                 Throws x \<Rightarrow> server_error pre x
               | Returns None \<Rightarrow>
                   \<lparr>response = JsonResponse 404 404 ''Short URL not found or has expired'',
                    effects = pre @ [Log Info (UrlNotFound sc)],
                    detached = []\<rparr>
               | Returns (Some r) \<Rightarrow> on_result e req pre r))"

section \<open>Reading an outcome\<close>

text \<open>The rows handed to \<^verbatim>\<open>recordImpression\<close>, and the timers set, in order.\<close>

fun impressions_of :: "effect list \<Rightarrow> impression list" where
  "impressions_of [] = []"
| "impressions_of (RecordImpression row # xs) = row # impressions_of xs"
| "impressions_of (x # xs) = impressions_of xs"

fun attributions_of :: "effect list \<Rightarrow> (string \<times> int) list" where
  "attributions_of [] = []"
| "attributions_of (SetTimeout d t g # xs) = (t, g) # attributions_of xs"
| "attributions_of (x # xs) = attributions_of xs"

fun requests_of :: "effect list \<Rightarrow> (http_options \<times> json) list" where
  "requests_of [] = []"
| "requests_of (HttpRequest opts b # xs) = (opts, b) # requests_of xs"
| "requests_of (x # xs) = requests_of xs"

fun resolutions_of :: "effect list \<Rightarrow> (string \<times> click_info) list" where
  "resolutions_of [] = []"
| "resolutions_of (ResolveAndRecord sc ci # xs) = (sc, ci) # resolutions_of xs"
| "resolutions_of (x # xs) = resolutions_of xs"

fun is_log :: "effect \<Rightarrow> bool" where
  "is_log (Log l m) = True"
| "is_log x = False"

fun is_error_log :: "effect \<Rightarrow> bool" where
  "is_error_log (Log Err m) = True"
| "is_error_log x = False"

text \<open>The calls on collaborators, with the log lines left out.\<close>

definition calls_of :: "effect list \<Rightarrow> effect list" where
  "calls_of xs = filter (\<lambda>x. \<not> is_log x) xs"

text \<open>
  A request resolves when its short code is a candidate, the resolve-and-record call
  returns the record \<open>r\<close>, the tracking hook leaves \<^verbatim>\<open>req.clickInfo\<close> as
  \<open>ci\<close>, and the second lookup returns \<open>url\<close> (the record, or nothing).
\<close>

definition resolves ::
  "env \<Rightarrow> request \<Rightarrow> click_result \<Rightarrow> click_info option \<Rightarrow> UrlEntity option \<Rightarrow> bool" where
  "resolves e req r ci url =
     (\<not> skipped (shortCode_of req) \<and>
      recordClickAndGetOriginalUrl e (shortCode_of req) (clickInfo_of req) = Returns (Some r) \<and>
      fst (call_setClickId req r) = Returns ci \<and>
      getUrlByShortCode e (shortCode_of req) = Returns url)"

text \<open>\<^verbatim>\<open>url?.redirect_type === '301' ? 301 : 302\<close>\<close>

definition status_of :: "UrlEntity option \<Rightarrow> int" where
  "status_of url =
     (if (case url of None \<Rightarrow> False | Some u \<Rightarrow> redirect_type u = ''301'') then 301 else 302)"


text \<open>
  A response of the conversion endpoint counts as tracked with the conversion id \<open>c\<close>
  when its status is 2xx and its body parses to a JSON value whose
  \<^verbatim>\<open>data.conversion_id\<close> can be read (\<open>c\<close> may be \<^verbatim>\<open>undefined\<close>).
\<close>

definition tracked :: "env \<Rightarrow> http_response \<Rightarrow> json option \<Rightarrow> bool" where
  "tracked e r c =
     (is_2xx (statusCode r) \<and>
      (\<exists>v d. json_parse e (body r) = Returns v \<and> get_prop v ''data'' = Returns d \<and>
         get_prop_opt d ''conversion_id'' = Returns c))"

section \<open>A sample deployment\<close>

definition sample_link :: "string \<Rightarrow> string \<Rightarrow> UrlEntity" where
  "sample_link sc rt =
     \<lparr>url_id = 7, user_id = None, original_url = ''https://example.com/page?x=1'',
      short_code = sc, title = None, expiry_date = None, is_active = True,
      has_password = False, password_hash = None, redirect_type = rt, created_at = 0,
      updated_at = None, deleted_at = None\<rparr>"

definition sample_result :: click_result where
  "sample_result =
     \<lparr>originalUrl = ''https://example.com/page?x=1'', res_clickId = 42, res_urlId = 7\<rparr>"

text \<open>
  The store knows the codes \<open>abc\<close> and \<open>apitest\<close>, both permanent redirects;
  the link has two goals; every collaborator succeeds. The conversion endpoint answers
  201 with a body that stands for \<^verbatim>\<open>{"data": {"conversion_id": 55}}\<close>, and the
  parser knows that one body.
\<close>

definition sample_env :: env where
  "sample_env =
     \<lparr>recordClickAndGetOriginalUrl =
        (\<lambda>sc ci. if sc = ''abc'' \<or> sc = ''apitest'' then Returns (Some sample_result)
                 else Returns None),
      getUrlByShortCode =
        (\<lambda>sc. if sc = ''abc'' \<or> sc = ''apitest'' then Returns (Some (sample_link sc ''301''))
              else Returns None),
      hasRecentImpression = (\<lambda>u ip. Returns False),
      recordImpression = (\<lambda>row. Returns Fulfilled),
      getGoalsByUrlId = (\<lambda>u. Returns [\<lparr>goal_id = 3\<rparr>, \<lparr>goal_id = 9\<rparr>]),
      url_hostname =
        (\<lambda>s. if s = ''https://news.example.org/a'' then Some ''news.example.org'' else None),
      http_request = (\<lambda>opts b. HttpEnd \<lparr>statusCode = Some 201, body = ''ok''\<rparr>),
      json_parse =
        (\<lambda>s. if s = ''ok''
             then Returns (JObject [(''data'', JObject [(''conversion_id'', JNumber 55)])])
             else Throws (JsError ''SyntaxError'')),
      env_HOST = None,
      env_PORT = None\<rparr>"

definition sample_clickInfo :: click_info where
  "sample_clickInfo =
     \<lparr>ipAddress = Str ''203.0.113.9'', userAgent = Some ''curl'', referrer = Null,
      country = None, deviceType = ''desktop'', browser = ''curl'', clickId = None,
      trackingId = None\<rparr>"

text \<open>A request whose upstream middleware attached the click information and the hook.\<close>

definition sample_request :: "string \<Rightarrow> header \<Rightarrow> request" where
  "sample_request p ref =
     \<lparr>path = p, x_forwarded_for = Str ''203.0.113.9'', user_agent = Some ''curl'',
      referer = ref, referrer_hdr = Undefined, remoteAddress = Str ''10.0.0.1'',
      clickInfo = Some sample_clickInfo,
      setClickId =
        Some (\<lambda>c u ci.
          Returns (map_option (\<lambda>i. i\<lparr>clickId := Some c, trackingId := Some ''abc123''\<rparr>) ci))\<rparr>"

text \<open>A bare request: no click information, no hook, no referrer.\<close>

definition bare_request :: "string \<Rightarrow> request" where
  "bare_request p =
     \<lparr>path = p, x_forwarded_for = Undefined, user_agent = None, referer = Undefined,
      referrer_hdr = Undefined, remoteAddress = Str ''10.0.0.1'', clickInfo = None,
      setClickId = None\<rparr>"


section \<open>The impression store\<close>

text \<open>
  \<^verbatim>\<open>impressionModel\<close> is not among the sources; the middleware only calls
  \<^verbatim>\<open>hasRecentImpression\<close> and \<^verbatim>\<open>recordImpression\<close>. The definitions of
  this section follow section 4.4 of the specification. A stored impression is the row
  that was handed over and the time it was stored, in milliseconds.
\<close>

record stored_impression =
  stored_row :: impression
  seen_at :: int

definition window_ms :: int where
  "window_ms = 30 * 60 * 1000"

text \<open>
  Modelled from the spec: \<^verbatim>\<open>impressionModel.hasRecentImpression\<close>, which is
  missing from the sources. "Determine uniqueness by checking whether an impression for
  that (url, IP) pair exists within the trailing 30-minute window." Whether an impression
  exactly 30 minutes old still counts is not said; here it does not.
\<close>

definition hasRecentImpression_spec ::
  "stored_impression list \<Rightarrow> int \<Rightarrow> int \<Rightarrow> header \<Rightarrow> bool" where
  "hasRecentImpression_spec store now u ip =
     list_ex
       (\<lambda>s. imp_url_id (stored_row s) = u \<and> ip_address (stored_row s) = ip \<and>
            now - seen_at s < window_ms)
       store"

text \<open>
  Modelled from the spec: \<^verbatim>\<open>impressionModel.recordImpression\<close>, which is missing
  from the sources. "Then persist a new impression row carrying the computed uniqueness
  flag"; impressions are append-only.
\<close>

definition recordImpression_spec ::
  "stored_impression list \<Rightarrow> int \<Rightarrow> impression \<Rightarrow> stored_impression list" where
  "recordImpression_spec store now r = store @ [\<lparr>stored_row = r, seen_at = now\<rparr>]"

text \<open>
  A deployment whose impression model is the one above, over the rows \<open>store\<close> at
  the time \<open>now\<close>, and one request served by it: the outcome and the rows
  afterwards.
\<close>

definition store_env :: "env \<Rightarrow> stored_impression list \<Rightarrow> int \<Rightarrow> env" where
  "store_env e store now =
     e\<lparr>hasRecentImpression := \<lambda>u ip. Returns (hasRecentImpression_spec store now u ip),
       recordImpression := \<lambda>r. Returns Fulfilled\<rparr>"

definition serve ::
  "env \<Rightarrow> stored_impression list \<Rightarrow> int \<Rightarrow> request \<Rightarrow> outcome \<times> stored_impression list" where
  "serve e store now req =
     (let out = redirectMiddleware (store_env e store now) req
      in (out, foldl (\<lambda>s r. recordImpression_spec s now r) store (impressions_of (effects out))))"

text \<open>The uniqueness flags of the rows that a request served at \<open>now\<close> records.\<close>

definition flags_of :: "env \<Rightarrow> stored_impression list \<Rightarrow> int \<Rightarrow> request \<Rightarrow> bool list" where
  "flags_of e store now req = map is_unique (impressions_of (effects (fst (serve e store now req))))"

section \<open>The URL controller\<close>




























section \<open>The shape of a run\<close>

lemma skipped_outcome:
  "skipped (shortCode_of req) \<Longrightarrow>
   redirectMiddleware e req = \<lparr>response = PassThrough, effects = [], detached = []\<rparr>"
  by (simp add: redirectMiddleware_def)

lemma resolved_outcome:
  assumes "resolves e req r ci url"
  shows "redirectMiddleware e req =
     (let sc = shortCode_of req;
          imp = track_impression e req (res_urlId r);
          gl = find_goal e (res_urlId r);
          att = attribute_conversion e (originalUrl r) (tracking_of ci) (fst gl)
      in \<lparr>response = Redirect (status_of url) (fst att),
          effects = [ResolveAndRecord sc (clickInfo_of req)] @ snd (call_setClickId req r) @
            [GetUrlByShortCode sc, Log Info (Redirecting sc (originalUrl r) (status_of url))] @
            fst imp @ snd gl @ fst (snd att),
          detached = snd imp @ snd (snd att)\<rparr>)"
  using assms
  by (cases "call_setClickId req r")
     (simp add: resolves_def redirectMiddleware_def on_result_def status_of_def Let_def
                split: prod.splits)

lemma resolutions_of_append [simp]:
  "resolutions_of (xs @ ys) = resolutions_of xs @ resolutions_of ys"
  by (induction xs rule: resolutions_of.induct) simp_all

lemma impressions_of_append [simp]:
  "impressions_of (xs @ ys) = impressions_of xs @ impressions_of ys"
  by (induction xs rule: impressions_of.induct) simp_all

lemma attributions_of_append [simp]:
  "attributions_of (xs @ ys) = attributions_of xs @ attributions_of ys"
  by (induction xs rule: attributions_of.induct) simp_all

lemma requests_of_append [simp]:
  "requests_of (xs @ ys) = requests_of xs @ requests_of ys"
  by (induction xs rule: requests_of.induct) simp_all

lemma hook_effects:
  assumes "call_setClickId req r = (h, xs)"
  shows "resolutions_of xs = []" and "impressions_of xs = []" and "attributions_of xs = []"
  using assms by (auto simp: call_setClickId_def split: option.splits)


lemma goal_effects:
  assumes "find_goal e u = (g, xs)"
  shows "resolutions_of xs = []" and "impressions_of xs = []" and "attributions_of xs = []"
  using assms by (auto simp: find_goal_def split: js_result.splits list.splits)

lemma timer_effects:
  assumes "attribute_conversion e url t g = (loc, xs, ys)"
  shows "resolutions_of xs = []" and "impressions_of xs = []"
  using assms by (auto simp: attribute_conversion_def split: option.splits if_splits)



lemma startsWith_api: "startsWith s ''api'' = (take 3 s = ''api'')"
  by (simp add: startsWith_def numeral_3_eq_3)

lemma skipped_iff:
  "skipped sc = (sc = [] \<or> CHR ''/'' \<in> set sc \<or> (\<exists>rest. sc = ''api'' @ rest))"
proof -
  have "(take 3 sc = ''api'') = (\<exists>rest. sc = ''api'' @ rest)"
  proof
    assume "take 3 sc = ''api''"
    then have "sc = ''api'' @ drop 3 sc" by (metis append_take_drop_id)
    then show "\<exists>rest. sc = ''api'' @ rest" ..
  next
    assume "\<exists>rest. sc = ''api'' @ rest"
    then show "take 3 sc = ''api''" by auto
  qed
  then show ?thesis by (simp add: skipped_def includes_chr_def startsWith_api)
qed

lemma attribute_conversion_url:
  "fst (attribute_conversion e url tr g) = (case tr of None \<Rightarrow> url | Some t \<Rightarrow> with_utm url t)"
  by (simp add: attribute_conversion_def split: option.splits)

lemma sample_resolves:
  "resolves sample_env (sample_request ''/abc'' ref) sample_result
     (Some (sample_clickInfo\<lparr>clickId := Some 42, trackingId := Some ''abc123''\<rparr>))
     (Some (sample_link ''abc'' ''301''))"
  by (simp add: resolves_def sample_env_def sample_request_def shortCode_of_def skipped_def
        includes_chr_def startsWith_api call_setClickId_def sample_result_def)

lemma bare_resolves:
  "resolves sample_env (bare_request ''/abc'') sample_result None
     (Some (sample_link ''abc'' ''301''))"
  by (simp add: resolves_def sample_env_def bare_request_def shortCode_of_def skipped_def
        includes_chr_def startsWith_api call_setClickId_def)

lemma track_impression_rows:
  "impressions_of (fst (track_impression e req u)) =
     (case hasRecentImpression e u (js_or (x_forwarded_for req) (remoteAddress req)) of
        Throws x \<Rightarrow> []
      | Returns b \<Rightarrow> [impression_row e req u (\<not> b)])"
  by (simp add: track_impression_def Let_def split: js_result.splits promise.splits)

lemma on_result_impressions:
  "set (impressions_of (effects (on_result e req pre r))) \<subseteq>
     set (impressions_of pre) \<union> set (impressions_of (fst (track_impression e req (res_urlId r))))"
  by (auto simp: on_result_def server_error_def Let_def hook_effects goal_effects timer_effects
        split: prod.splits js_result.splits)

lemma recorded_row:
  assumes "row \<in> set (impressions_of (effects (redirectMiddleware e req)))"
  shows "\<exists>r b. recordClickAndGetOriginalUrl e (shortCode_of req) (clickInfo_of req) =
            Returns (Some r) \<and>
          hasRecentImpression e (res_urlId r)
            (js_or (x_forwarded_for req) (remoteAddress req)) = Returns b \<and>
          row = impression_row e req (res_urlId r) (\<not> b)"
proof (cases "skipped (shortCode_of req)")
  case True
  with assms show ?thesis by (simp add: skipped_outcome)
next
  case False
  show ?thesis
  proof (cases "recordClickAndGetOriginalUrl e (shortCode_of req) (clickInfo_of req)")
    case (Throws x)
    with assms False show ?thesis
      by (simp add: redirectMiddleware_def Let_def server_error_def)
  next
    case (Returns res)
    show ?thesis
    proof (cases res)
      case None
      with assms False Returns show ?thesis
        by (simp add: redirectMiddleware_def Let_def)
    next
      case (Some r)
      with assms False Returns
      have "row \<in> set (impressions_of (effects (on_result e req
               [ResolveAndRecord (shortCode_of req) (clickInfo_of req)] r)))"
        by (simp add: redirectMiddleware_def Let_def)
      with on_result_impressions
      have "row \<in> set (impressions_of (fst (track_impression e req (res_urlId r))))"
        by fastforce
      then have "\<exists>b. hasRecentImpression e (res_urlId r)
            (js_or (x_forwarded_for req) (remoteAddress req)) = Returns b \<and>
          row = impression_row e req (res_urlId r) (\<not> b)"
        by (cases "hasRecentImpression e (res_urlId r)
              (js_or (x_forwarded_for req) (remoteAddress req))")
           (simp_all add: track_impression_rows)
      with Returns Some show ?thesis by blast
    qed
  qed
qed

lemma resolved_impressions:
  assumes "resolves e req r ci url"
  shows "impressions_of (effects (redirectMiddleware e req)) =
           impressions_of (fst (track_impression e req (res_urlId r)))"
proof -
  obtain h hx where h: "call_setClickId req r = (h, hx)" by (cases "call_setClickId req r")
  obtain g gx where g: "find_goal e (res_urlId r) = (g, gx)" by (cases "find_goal e (res_urlId r)")
  obtain loc tx ty where
    a: "attribute_conversion e (originalUrl r) (tracking_of ci) g = (loc, tx, ty)"
    by (cases "attribute_conversion e (originalUrl r) (tracking_of ci) g")
  show ?thesis
    using assms h g a
    by (simp add: resolved_outcome Let_def hook_effects [OF h] goal_effects [OF g]
          timer_effects [OF a])
qed








lemma calls_of_append [simp]: "calls_of (xs @ ys) = calls_of xs @ calls_of ys"
  by (simp add: calls_of_def)

lemma calls_of_Cons [simp]:
  "calls_of (x # xs) = (if is_log x then calls_of xs else x # calls_of xs)"
  by (simp add: calls_of_def)

lemma calls_of_Nil [simp]: "calls_of [] = []"
  by (simp add: calls_of_def)











section \<open>Paths that are no short code\<close>

text \<open>
  Claim C8. A path whose first segment (the path without its leading slash) is empty,
  contains a \<^verbatim>\<open>/\<close> or starts with \<^verbatim>\<open>api\<close> is passed to the next handler:
  the middleware makes no call on any collaborator, so it neither resolves a link nor
  records a click, and it leaves no detached work behind.
\<close>

theorem reserved_paths_pass_through:
  assumes "sc = drop 1 (path req)"
    and "sc = [] \<or> CHR ''/'' \<in> set sc \<or> (\<exists>rest. sc = ''api'' @ rest)"
  shows "response (redirectMiddleware e req) = PassThrough \<and>
         effects (redirectMiddleware e req) = [] \<and>
         detached (redirectMiddleware e req) = [] \<and>
         resolutions_of (effects (redirectMiddleware e req)) = []"
proof -
  have "skipped (shortCode_of req)"
    using assms by (simp add: skipped_iff shortCode_of_def)
  then show ?thesis by (simp add: skipped_outcome)
qed

theorem reserved_paths_pass_through_witness:
  "response (redirectMiddleware sample_env (bare_request ''/api/v1/urls'')) = PassThrough \<and>
   effects (redirectMiddleware sample_env (bare_request ''/api/v1/urls'')) = [] \<and>
   response (redirectMiddleware sample_env (bare_request ''/abc/def'')) = PassThrough \<and>
   effects (redirectMiddleware sample_env (bare_request ''/abc/def'')) = [] \<and>
   response (redirectMiddleware sample_env (bare_request ''/'')) = PassThrough \<and>
   effects (redirectMiddleware sample_env (bare_request ''/'')) = []"
  using reserved_paths_pass_through [of "''api/v1/urls''" "bare_request ''/api/v1/urls''" sample_env]
    reserved_paths_pass_through [of "''abc/def''" "bare_request ''/abc/def''" sample_env]
    reserved_paths_pass_through [of "''''" "bare_request ''/''" sample_env]
  by (simp add: bare_request_def)

section \<open>Codes that do not resolve\<close>



section \<open>Codes that resolve\<close>




section \<open>The redirect URL\<close>

text \<open>
  Claim C4. When a request resolves and \<^verbatim>\<open>req.clickInfo\<close> carries a non-empty
  tracking identifier \<open>t\<close> afterwards, the redirect goes to the destination URL
  followed by \<^verbatim>\<open>&\<close> if the destination contains a \<^verbatim>\<open>?\<close> and by
  \<^verbatim>\<open>?\<close> otherwise, followed by
  \<^verbatim>\<open>utm_source=cylink&utm_medium=shortlink&utm_campaign=conversion&utm_content=\<close>
  and \<open>t\<close>.
\<close>

theorem tracked_redirect_carries_utm:
  assumes "resolves e req r (Some c) url"
    and "trackingId c = Some t" and "t \<noteq> []"
  shows "response (redirectMiddleware e req) =
     Redirect (status_of url)
       (originalUrl r @ (if CHR ''?'' \<in> set (originalUrl r) then ''&'' else ''?'') @
        ''utm_source=cylink&utm_medium=shortlink&utm_campaign=conversion&utm_content='' @ t)"
proof -
  have "tracking_of (Some c) = Some t"
    using assms(2,3) by (simp add: tracking_of_def)
  with assms(1) show ?thesis
    by (simp add: resolved_outcome Let_def attribute_conversion_url with_utm_def utm_def
          includes_chr_def)
qed

theorem tracked_redirect_carries_utm_witness:
  "response (redirectMiddleware sample_env (sample_request ''/abc'' Undefined)) =
     Redirect 301
       ''https://example.com/page?x=1&utm_source=cylink&utm_medium=shortlink&utm_campaign=conversion&utm_content=abc123'' \<and>
   response (redirectMiddleware
       (sample_env\<lparr>recordClickAndGetOriginalUrl :=
          \<lambda>sc ci. Returns (Some (sample_result\<lparr>originalUrl := ''https://example.com/page''\<rparr>))\<rparr>)
       (sample_request ''/abc'' Undefined)) =
     Redirect 301
       ''https://example.com/page?utm_source=cylink&utm_medium=shortlink&utm_campaign=conversion&utm_content=abc123''"
proof -
  let ?e = "sample_env\<lparr>recordClickAndGetOriginalUrl :=
          \<lambda>sc ci. Returns (Some (sample_result\<lparr>originalUrl := ''https://example.com/page''\<rparr>))\<rparr>"
  have r: "resolves ?e (sample_request ''/abc'' Undefined)
     (sample_result\<lparr>originalUrl := ''https://example.com/page''\<rparr>)
     (Some (sample_clickInfo\<lparr>clickId := Some 42, trackingId := Some ''abc123''\<rparr>))
     (Some (sample_link ''abc'' ''301''))"
    by (simp add: resolves_def sample_env_def sample_request_def shortCode_of_def skipped_def
          includes_chr_def startsWith_api call_setClickId_def sample_result_def)
  show ?thesis
    using tracked_redirect_carries_utm [OF sample_resolves, of "''abc123''" Undefined]
      tracked_redirect_carries_utm [OF r, of "''abc123''"]
    by (simp add: sample_clickInfo_def sample_result_def status_of_def sample_link_def)
qed

section \<open>The traffic source of an impression\<close>

text \<open>
  Claim C9. Every impression row that a request hands to the impression model has its
  source derived from the referrer (the \<^verbatim>\<open>Referer\<close> header, else the
  \<^verbatim>\<open>Referrer\<close> header): for a non-empty referrer string it is the hostname of
  the referrer parsed as a URL, or the referrer itself when the parse fails; when both
  headers are absent or empty it is the empty string.
\<close>

theorem impression_source_from_referrer:
  assumes "row \<in> set (impressions_of (effects (redirectMiddleware e req)))"
  shows "(\<forall>s h. referrer_of req = Str s \<and> s \<noteq> [] \<and> url_hostname e s = Some h
            \<longrightarrow> source row = h) \<and>
         (\<forall>s. referrer_of req = Str s \<and> s \<noteq> [] \<and> url_hostname e s = None
            \<longrightarrow> source row = s) \<and>
         (\<not> truthy (referer req) \<and> \<not> truthy (referrer_hdr req) \<longrightarrow> source row = [])"
proof -
  from recorded_row [OF assms] obtain u b where "row = impression_row e req u b" by blast
  then have "source row = source_of e (referrer_of req)"
    by (simp add: impression_row_def)
  then show ?thesis
    by (auto simp: source_of_def referrer_of_def js_or_def)
qed

lemma sample_rows:
  "impressions_of (effects (redirectMiddleware sample_env (sample_request ''/abc'' ref))) =
     [impression_row sample_env (sample_request ''/abc'' ref) 7 True]"
  by (simp add: resolved_impressions [OF sample_resolves] track_impression_rows
        sample_result_def) (simp add: sample_env_def)

theorem impression_source_from_referrer_witness:
  "map source (impressions_of (effects (redirectMiddleware sample_env
      (sample_request ''/abc'' (Str ''https://news.example.org/a''))))) = [''news.example.org''] \<and>
   map source (impressions_of (effects (redirectMiddleware sample_env
      (sample_request ''/abc'' (Str ''not a url''))))) = [''not a url''] \<and>
   map source (impressions_of (effects (redirectMiddleware sample_env
      (sample_request ''/abc'' Undefined)))) = [[]]"
proof -
  let ?row = "\<lambda>ref. impression_row sample_env (sample_request ''/abc'' ref) 7 True"
  have m: "\<And>ref. ?row ref \<in>
      set (impressions_of (effects (redirectMiddleware sample_env (sample_request ''/abc'' ref))))"
    by (simp add: sample_rows)
  have "referrer_of (sample_request ''/abc'' (Str ''https://news.example.org/a'')) =
      Str ''https://news.example.org/a''"
    by (simp add: referrer_of_def js_or_def sample_request_def)
  moreover have "url_hostname sample_env ''https://news.example.org/a'' = Some ''news.example.org''"
    by (simp add: sample_env_def)
  ultimately have 1: "source (?row (Str ''https://news.example.org/a'')) = ''news.example.org''"
    using impression_source_from_referrer [OF m [of "Str ''https://news.example.org/a''"]]
    by simp
  have "referrer_of (sample_request ''/abc'' (Str ''not a url'')) = Str ''not a url''"
    by (simp add: referrer_of_def js_or_def sample_request_def)
  moreover have "url_hostname sample_env ''not a url'' = None"
    by (simp add: sample_env_def)
  ultimately have 2: "source (?row (Str ''not a url'')) = ''not a url''"
    using impression_source_from_referrer [OF m [of "Str ''not a url''"]]
    by simp
  have 3: "source (?row Undefined) = []"
    using impression_source_from_referrer [OF m [of Undefined]]
    by (simp add: sample_request_def)
  from 1 2 3 show ?thesis by (simp add: sample_rows)
qed

section \<open>When the conversion attribution is scheduled\<close>



section \<open>Analytics failures and the redirect\<close>



section \<open>The conversion attribution trigger\<close>

lemma on_end_cases:
  "(\<exists>c. tracked e r c \<and> on_end e t r = ([Log Info (ConversionTracked c t)], Fulfilled)) \<or>
   ((\<forall>c. \<not> tracked e r c) \<and>
    ((\<exists>m. on_end e t r = ([Log Err (ErrorTrackingConversion m)], Fulfilled)) \<or>
     (\<exists>x. on_end e t r = ([Log Err (ErrorParsingConversion x)], Rejected x))))"
  by (auto simp: on_end_def tracked_def split: js_result.splits)

text \<open>
  Claim C7. \<^verbatim>\<open>autoTrackConversion\<close> sends one POST request to
  \<^verbatim>\<open>/api/v1/conversions\<close> whose JSON body has the members
  \<^verbatim>\<open>tracking_id\<close> and \<^verbatim>\<open>goal_id\<close>. When the response ends: a 2xx
  response whose body carries a readable \<^verbatim>\<open>data.conversion_id\<close> is logged as
  tracked, with that id; every other response (another status, a body that does not
  parse or does not have that shape) leaves only error lines in the log. A status that
  is not 2xx resolves the promise; a body that cannot be read rejects it, and the
  timer's callback catches the rejection and logs it, so the task ends without an
  exception in every case.
\<close>

theorem conversion_trigger_posts_and_swallows:
  assumes "http_request e (conversion_options e) (postData t g) = HttpEnd r"
  shows
   "http_path (conversion_options e) = ''/api/v1/conversions'' \<and>
    http_method (conversion_options e) = ''POST'' \<and>
    content_type (conversion_options e) = ''application/json'' \<and>
    postData t g = JObject [(''tracking_id'', JString t), (''goal_id'', JNumber g)] \<and>
    requests_of (attribution_task e t g) = [(conversion_options e, postData t g)] \<and>
    (\<forall>c. tracked e r c \<longrightarrow>
       attribution_task e t g =
         [HttpRequest (conversion_options e) (postData t g), Log Info (ConversionTracked c t)]) \<and>
    ((\<forall>c. \<not> tracked e r c) \<longrightarrow>
       (\<exists>errs. attribution_task e t g = HttpRequest (conversion_options e) (postData t g) # errs \<and>
          errs \<noteq> [] \<and> list_all is_error_log errs)) \<and>
    (\<forall>v m. \<not> is_2xx (statusCode r) \<and> json_parse e (body r) = Returns v \<and>
        get_prop v ''message'' = Returns m \<longrightarrow>
       autoTrackConversion e t g =
         ([HttpRequest (conversion_options e) (postData t g),
           Log Err (ErrorTrackingConversion (if json_truthy m then m else None))], Fulfilled)) \<and>
    (\<forall>x. json_parse e (body r) = Throws x \<longrightarrow>
       attribution_task e t g =
         [HttpRequest (conversion_options e) (postData t g),
          Log Err (ErrorParsingConversion x), Log Err (ErrorAutoTracking x)])"
proof -
  have task: "attribution_task e t g =
      (case on_end e t r of
         (logs, Rejected x) \<Rightarrow>
           HttpRequest (conversion_options e) (postData t g) # logs @ [Log Err (ErrorAutoTracking x)]
       | (logs, _) \<Rightarrow> HttpRequest (conversion_options e) (postData t g) # logs)"
    using assms
    by (simp add: attribution_task_def autoTrackConversion_def Let_def
          split: prod.splits promise.splits)
  have auto_track: "autoTrackConversion e t g =
      (HttpRequest (conversion_options e) (postData t g) # fst (on_end e t r), snd (on_end e t r))"
    using assms by (simp add: autoTrackConversion_def Let_def split: prod.splits)
  have 1: "http_path (conversion_options e) = ''/api/v1/conversions'' \<and>
    http_method (conversion_options e) = ''POST'' \<and>
    content_type (conversion_options e) = ''application/json'' \<and>
    postData t g = JObject [(''tracking_id'', JString t), (''goal_id'', JNumber g)]"
    by (simp add: conversion_options_def postData_def)
  have 2: "requests_of (attribution_task e t g) = [(conversion_options e, postData t g)]"
    using on_end_cases [of e r t] by (auto simp: task)
  have 3: "attribution_task e t g =
         [HttpRequest (conversion_options e) (postData t g), Log Info (ConversionTracked c t)]"
    if "tracked e r c" for c
    using that by (auto simp: task on_end_def tracked_def)
  have 4: "\<exists>errs. attribution_task e t g = HttpRequest (conversion_options e) (postData t g) # errs \<and>
          errs \<noteq> [] \<and> list_all is_error_log errs"
    if "\<forall>c. \<not> tracked e r c"
    using on_end_cases [of e r t] that by (auto simp: task)
  have 5: "autoTrackConversion e t g =
         ([HttpRequest (conversion_options e) (postData t g),
           Log Err (ErrorTrackingConversion (if json_truthy m then m else None))], Fulfilled)"
    if "\<not> is_2xx (statusCode r)" and "json_parse e (body r) = Returns v"
      and "get_prop v ''message'' = Returns m" for v m
    using that by (simp add: auto_track on_end_def)
  have 6: "attribution_task e t g =
         [HttpRequest (conversion_options e) (postData t g),
          Log Err (ErrorParsingConversion x), Log Err (ErrorAutoTracking x)]"
    if "json_parse e (body r) = Throws x" for x
    using that by (simp add: task on_end_def)
  from 1 2 3 4 5 6 show ?thesis by blast
qed

theorem conversion_trigger_posts_and_swallows_witness:
  "attribution_task sample_env ''abc123'' 3 =
     [HttpRequest (conversion_options sample_env) (postData ''abc123'' 3),
      Log Info (ConversionTracked (Some (JNumber 55)) ''abc123'')] \<and>
   autoTrackConversion
       (sample_env\<lparr>http_request := \<lambda>opts b. HttpEnd \<lparr>statusCode = Some 500, body = ''ok''\<rparr>\<rparr>)
       ''abc123'' 3 =
     ([HttpRequest (conversion_options sample_env) (postData ''abc123'' 3),
       Log Err (ErrorTrackingConversion None)], Fulfilled) \<and>
   attribution_task
       (sample_env\<lparr>http_request := \<lambda>opts b. HttpEnd \<lparr>statusCode = Some 200, body = ''<html>''\<rparr>\<rparr>)
       ''abc123'' 3 =
     [HttpRequest (conversion_options sample_env) (postData ''abc123'' 3),
      Log Err (ErrorParsingConversion (JsError ''SyntaxError'')),
      Log Err (ErrorAutoTracking (JsError ''SyntaxError''))]"
proof -
  let ?ok = "\<lparr>statusCode = Some 201, body = ''ok''\<rparr>"
  let ?e500 = "sample_env\<lparr>http_request := \<lambda>opts b. HttpEnd \<lparr>statusCode = Some 500, body = ''ok''\<rparr>\<rparr>"
  let ?ebad = "sample_env\<lparr>http_request := \<lambda>opts b. HttpEnd \<lparr>statusCode = Some 200, body = ''<html>''\<rparr>\<rparr>"
  have o: "conversion_options ?e500 = conversion_options sample_env"
    "conversion_options ?ebad = conversion_options sample_env"
    by (simp_all add: conversion_options_def)
  have h1: "http_request sample_env (conversion_options sample_env) (postData ''abc123'' 3) =
      HttpEnd ?ok"
    by (simp add: sample_env_def)
  have t1: "tracked sample_env ?ok (Some (JNumber 55))"
    by (simp add: tracked_def is_2xx_def sample_env_def)
  have 1: "attribution_task sample_env ''abc123'' 3 =
     [HttpRequest (conversion_options sample_env) (postData ''abc123'' 3),
      Log Info (ConversionTracked (Some (JNumber 55)) ''abc123'')]"
    using conversion_trigger_posts_and_swallows [OF h1] t1 by blast
  have h2: "http_request ?e500 (conversion_options ?e500) (postData ''abc123'' 3) =
      HttpEnd \<lparr>statusCode = Some 500, body = ''ok''\<rparr>"
    by simp
  have p2: "\<not> is_2xx (statusCode \<lparr>statusCode = Some 500, body = ''ok''\<rparr>) \<and>
      json_parse ?e500 (body \<lparr>statusCode = Some 500, body = ''ok''\<rparr>) =
        Returns (JObject [(''data'', JObject [(''conversion_id'', JNumber 55)])]) \<and>
      get_prop (JObject [(''data'', JObject [(''conversion_id'', JNumber 55)])]) ''message'' =
        Returns None"
    by (simp add: is_2xx_def sample_env_def)
  have 2: "autoTrackConversion ?e500 ''abc123'' 3 =
     ([HttpRequest (conversion_options sample_env) (postData ''abc123'' 3),
       Log Err (ErrorTrackingConversion None)], Fulfilled)"
    using conversion_trigger_posts_and_swallows [OF h2] p2 o(1) by fastforce
  have h3: "http_request ?ebad (conversion_options ?ebad) (postData ''abc123'' 3) =
      HttpEnd \<lparr>statusCode = Some 200, body = ''<html>''\<rparr>"
    by simp
  have p3: "json_parse ?ebad (body \<lparr>statusCode = Some 200, body = ''<html>''\<rparr>) =
      Throws (JsError ''SyntaxError'')"
    by (simp add: sample_env_def)
  have 3: "attribution_task ?ebad ''abc123'' 3 =
     [HttpRequest (conversion_options sample_env) (postData ''abc123'' 3),
      Log Err (ErrorParsingConversion (JsError ''SyntaxError'')),
      Log Err (ErrorAutoTracking (JsError ''SyntaxError''))]"
    using conversion_trigger_posts_and_swallows [OF h3] p3 o(2) by fastforce
  from 1 2 3 show ?thesis by simp
qed

section \<open>The uniqueness window of impressions\<close>

lemma store_env_resolves:
  "resolves (store_env e s now) req r ci url = resolves e req r ci url"
  by (simp add: resolves_def store_env_def)

lemma store_env_check:
  "hasRecentImpression (store_env e s now) u ip = Returns (hasRecentImpression_spec s now u ip)"
  by (simp add: store_env_def)

lemma served_rows:
  assumes "resolves e req r ci url"
  shows "impressions_of (effects (fst (serve e s now req))) =
     [impression_row (store_env e s now) req (res_urlId r)
        (\<not> hasRecentImpression_spec s now (res_urlId r)
             (js_or (x_forwarded_for req) (remoteAddress req)))]"
  using assms
  by (simp add: serve_def Let_def resolved_impressions [where ci = ci and url = url]
        store_env_resolves track_impression_rows store_env_check)

lemma served_flags:
  assumes "resolves e req r ci url"
  shows "flags_of e s now req =
     [\<not> hasRecentImpression_spec s now (res_urlId r)
          (js_or (x_forwarded_for req) (remoteAddress req))]"
  by (simp add: flags_of_def served_rows [OF assms] impression_row_def)

lemma served_store:
  assumes "resolves e req r ci url"
  shows "\<exists>row. snd (serve e s now req) = s @ [\<lparr>stored_row = row, seen_at = now\<rparr>] \<and>
           imp_url_id row = res_urlId r \<and>
           ip_address row = js_or (x_forwarded_for req) (remoteAddress req)"
proof -
  have "snd (serve e s now req) =
      foldl (\<lambda>s r. recordImpression_spec s now r) s
        (impressions_of (effects (fst (serve e s now req))))"
    by (simp add: serve_def Let_def)
  then show ?thesis
    by (simp add: served_rows [OF assms] recordImpression_spec_def impression_row_def)
qed

lemma served_flag_general:
  assumes "x \<in> set (impressions_of (effects (fst (serve e s now req))))"
  shows "is_unique x = (\<not> hasRecentImpression_spec s now (imp_url_id x) (ip_address x))"
proof -
  from assms have "x \<in> set (impressions_of (effects (redirectMiddleware (store_env e s now) req)))"
    by (simp add: serve_def Let_def)
  from recorded_row [OF this] obtain r :: click_result and b where
    b: "hasRecentImpression (store_env e s now) (res_urlId r)
          (js_or (x_forwarded_for req) (remoteAddress req)) = Returns b"
    and x: "x = impression_row (store_env e s now) req (res_urlId r) (\<not> b)"
    by auto
  from b have "b = hasRecentImpression_spec s now (res_urlId r)
      (js_or (x_forwarded_for req) (remoteAddress req))"
    by (simp add: store_env_check)
  with x show ?thesis by (simp add: impression_row_def)
qed

text \<open>
  Claim C5. Over the impression store of the specification: every impression row that
  a request records carries \<^verbatim>\<open>is_unique = false\<close> exactly when the store holds,
  at the time of the check, an impression of the same url id and IP address less than
  30 minutes old. In particular, of three requests from one IP address to one link,
  the second, less than 30 minutes after the first, is recorded as not unique, and the
  third, more than 30 minutes after the second, as unique.
\<close>

theorem impression_uniqueness_window:
  assumes first: "resolves e req1 r1 ci1 url1"
    and second: "resolves e req2 r2 ci2 url2"
    and third: "resolves e req3 r3 ci3 url3"
    and same_link: "res_urlId r2 = res_urlId r1" "res_urlId r3 = res_urlId r1"
    and same_ip:
      "js_or (x_forwarded_for req2) (remoteAddress req2) =
         js_or (x_forwarded_for req1) (remoteAddress req1)"
      "js_or (x_forwarded_for req3) (remoteAddress req3) =
         js_or (x_forwarded_for req1) (remoteAddress req1)"
    and past: "\<forall>s \<in> set s0. seen_at s \<le> t1"
    and times: "t1 \<le> t2" "t2 - t1 < window_ms" "t2 + window_ms < t3"
  shows "(\<forall>x \<in> set (impressions_of (effects (fst (serve e s0 t1 req1)))).
            is_unique x = (\<not> hasRecentImpression_spec s0 t1 (imp_url_id x) (ip_address x))) \<and>
         flags_of e (snd (serve e s0 t1 req1)) t2 req2 = [False] \<and>
         flags_of e (snd (serve e (snd (serve e s0 t1 req1)) t2 req2)) t3 req3 = [True]"
proof -
  let ?ip = "js_or (x_forwarded_for req1) (remoteAddress req1)"
  obtain x1 where s1: "snd (serve e s0 t1 req1) = s0 @ [\<lparr>stored_row = x1, seen_at = t1\<rparr>]"
    and x1: "imp_url_id x1 = res_urlId r1" "ip_address x1 = ?ip"
    using served_store [OF first] by blast
  obtain x2 where
    s2: "snd (serve e (s0 @ [\<lparr>stored_row = x1, seen_at = t1\<rparr>]) t2 req2) =
      s0 @ [\<lparr>stored_row = x1, seen_at = t1\<rparr>, \<lparr>stored_row = x2, seen_at = t2\<rparr>]"
    using served_store [OF second, of "s0 @ [\<lparr>stored_row = x1, seen_at = t1\<rparr>]" t2] by auto
  have a: "hasRecentImpression_spec (s0 @ [\<lparr>stored_row = x1, seen_at = t1\<rparr>]) t2 (res_urlId r1) ?ip"
    using x1 times(2) by (simp add: hasRecentImpression_spec_def)
  have b: "\<not> hasRecentImpression_spec
      (s0 @ [\<lparr>stored_row = x1, seen_at = t1\<rparr>, \<lparr>stored_row = x2, seen_at = t2\<rparr>]) t3
      (res_urlId r1) ?ip"
    using past times by (auto simp: hasRecentImpression_spec_def list_ex_iff)
  have 1: "\<forall>x \<in> set (impressions_of (effects (fst (serve e s0 t1 req1)))).
            is_unique x = (\<not> hasRecentImpression_spec s0 t1 (imp_url_id x) (ip_address x))"
    using served_flag_general by blast
  have 2: "flags_of e (snd (serve e s0 t1 req1)) t2 req2 = [False]"
    using a by (simp add: s1 served_flags [OF second] same_link same_ip)
  have 3: "flags_of e (snd (serve e (snd (serve e s0 t1 req1)) t2 req2)) t3 req3 = [True]"
    using b by (simp add: s1 s2 served_flags [OF third] same_link same_ip)
  from 1 2 3 show ?thesis by simp
qed

theorem impression_uniqueness_window_witness:
  "flags_of sample_env [] 0 (bare_request ''/abc'') = [True] \<and>
   flags_of sample_env (snd (serve sample_env [] 0 (bare_request ''/abc''))) 1799999
     (bare_request ''/abc'') = [False] \<and>
   flags_of sample_env
     (snd (serve sample_env (snd (serve sample_env [] 0 (bare_request ''/abc''))) 1799999
        (bare_request ''/abc''))) 3600000 (bare_request ''/abc'') = [True]"
proof -
  let ?req = "bare_request ''/abc''"
  have t: "(0::int) \<le> 1799999" "(1799999::int) - 0 < window_ms" "1799999 + window_ms < (3600000::int)"
    by (simp_all add: window_ms_def)
  have p: "\<forall>s \<in> set ([]::stored_impression list). seen_at s \<le> 0" by simp
  note w = impression_uniqueness_window [OF bare_resolves bare_resolves bare_resolves
      refl refl refl refl p t]
  have 1: "flags_of sample_env [] 0 ?req = [True]"
  proof -
    from w have "\<forall>x \<in> set (impressions_of (effects (fst (serve sample_env [] 0 ?req)))).
        is_unique x = (\<not> hasRecentImpression_spec [] 0 (imp_url_id x) (ip_address x))"
      by blast
    then have "\<forall>x \<in> set (impressions_of (effects (fst (serve sample_env [] 0 ?req)))). is_unique x"
      by (simp add: hasRecentImpression_spec_def)
    moreover have "length (flags_of sample_env [] 0 ?req) = 1"
      by (simp add: served_flags [OF bare_resolves])
    ultimately show ?thesis
      by (cases "impressions_of (effects (fst (serve sample_env [] 0 ?req)))")
         (simp_all add: flags_of_def)
  qed
  from 1 w show ?thesis by simp
qed

section \<open>The owner check of the URL controller\<close>









end
